theory Spec2Isabelle
  imports
    Main
    "HOL-Library.Word"
    "HOL-Library.Sublist"
    "HOL-Library.AList"
    "HOL-Library.Char_ord"
    "HOL-Library.List_Lexorder"
begin

section \<open>The ROM packaging script \<^verbatim>\<open>scripts/parse_roms.py\<close>\<close>

text \<open>
  A shallow embedding of the compression engine (\<^verbatim>\<open>compress_lzma\<close>,
  \<^verbatim>\<open>ROMParser._compress_rom\<close>), of the image catalog (\<^verbatim>\<open>ROM.__init__\<close>,
  \<^verbatim>\<open>ROMParser.find_roms\<close>) and of the layout planner
  (\<^verbatim>\<open>ROMParser.generate_system\<close>, \<^verbatim>\<open>ROMParser.write_if_changed\<close>,
  \<^verbatim>\<open>ROMParser.parse\<close>). Python exceptions and \<^verbatim>\<open>exit(-1)\<close> are values of a
  sum type; files are explicit state.
\<close>

subsection \<open>Bytes, exceptions, Python list indexing\<close>

type_synonym byte = "8 word"
type_synonym bytes = "byte list"

datatype error =
    NotImplementedError
  | IndexError
  | NameError
  | ValueError
  | KeyError
  | StructError
  | SystemExit int

text \<open>\<^verbatim>\<open>xs[i]\<close>: a negative index counts from the end, an index out of range raises.\<close>

definition py_index :: "'a list \<Rightarrow> int \<Rightarrow> error + 'a" where
  "py_index xs i =
     (if 0 \<le> i \<and> i < int (length xs) then Inr (xs ! nat i)
      else if - int (length xs) \<le> i \<and> i < 0 then Inr (xs ! nat (int (length xs) + i))
      else Inl IndexError)"

text \<open>A list comprehension over calls that may raise: the first exception ends it.\<close>

fun map_err :: "('a \<Rightarrow> error + 'b) \<Rightarrow> 'a list \<Rightarrow> error + 'b list" where
  "map_err f [] = Inr []"
| "map_err f (x # xs) =
     (case f x of
        Inl e \<Rightarrow> Inl e
      | Inr y \<Rightarrow> (case map_err f xs of Inl e \<Rightarrow> Inl e | Inr ys \<Rightarrow> Inr (y # ys)))"

text \<open>
  \<^verbatim>\<open>[data[i : i + BANK_SIZE] for i in range(0, len(data), BANK_SIZE)]\<close>: consecutive
  slices of \<open>n\<close> bytes, the last one possibly short, none for empty data.
\<close>

function split_banks :: "nat \<Rightarrow> 'a list \<Rightarrow> 'a list list" where
  "split_banks n xs =
     (if n = 0 \<or> xs = [] then [] else take n xs # split_banks n (drop n xs))"
  by pat_completeness auto
termination
  by (relation "measure (\<lambda>(n, xs). length xs)") auto

declare split_banks.simps [simp del]

subsection \<open>The codec: \<^verbatim>\<open>compress_lzma\<close>\<close>

text \<open>
  The optional argument \<^verbatim>\<open>level\<close> is \<^verbatim>\<open>None\<close> or the sentinel
  \<^verbatim>\<open>DONT_COMPRESS\<close>.
\<close>

datatype level = Default | DONT_COMPRESS

type_synonym codec = "bytes \<Rightarrow> level \<Rightarrow> error + bytes"

text \<open>
  \<open>lzma_alone\<close> stands for the library call
  \<^verbatim>\<open>lzma.compress(data, format=FORMAT_ALONE, filters=[LZMA1, preset 6, dict 16 KiB])\<close>;
  \<open>compress_gb_speed\<close> is the global \<^verbatim>\<open>args.compress_gb_speed\<close>.
\<close>

definition compress_lzma :: "(bytes \<Rightarrow> bytes) \<Rightarrow> bool \<Rightarrow> codec" where
  "compress_lzma lzma_alone compress_gb_speed data lvl =
     (if lvl = DONT_COMPRESS then
        (if compress_gb_speed then Inl NotImplementedError else Inr data)
      else Inr (drop 13 (lzma_alone data)))"

subsection \<open>\<^verbatim>\<open>struct.pack("<l", n)\<close> and the name \<^verbatim>\<open>pack\<close>\<close>

text \<open>Four bytes, little-endian two's complement; a value outside 32 bits raises.\<close>

definition le32 :: "32 word \<Rightarrow> bytes" where
  "le32 w = [ucast w, ucast (drop_bit 8 w), ucast (drop_bit 16 w), ucast (drop_bit 24 w)]"

definition struct_pack_l :: "int \<Rightarrow> error + bytes" where
  "struct_pack_l n =
     (if - (2 ^ 31) \<le> n \<and> n < 2 ^ 31 then Inr (le32 (word_of_int n)) else Inl StructError)"

text \<open>
  The 128 KiB branch calls the bare name \<^verbatim>\<open>pack\<close>. A call of a global name looks the
  name up in the module's globals when the call is evaluated and raises
  \<^verbatim>\<open>NameError\<close> when nothing is bound to it.
\<close>

definition call_global :: "('a \<Rightarrow> error + 'b) option \<Rightarrow> 'a \<Rightarrow> error + 'b" where
  "call_global binding x = (case binding of None \<Rightarrow> Inl NameError | Some f \<Rightarrow> f x)"

text \<open>
  The module has \<^verbatim>\<open>import struct\<close> and no \<^verbatim>\<open>from struct import pack\<close>, no
  definition and no assignment of \<^verbatim>\<open>pack\<close>: the name is unbound.
\<close>

definition module_pack :: "(int \<Rightarrow> error + bytes) option" where
  "module_pack = None"

subsection \<open>The 128 KiB-bank container (sms, gg, md)\<close>

definition magic_SMS :: bytes where
  "magic_SMS = [0x53, 0x4D, 0x53, 0x2B]"

definition sms_bank_size :: nat where
  "sms_bank_size = 128 * 1024"

text \<open>
  Both banked branches start with
  \<^verbatim>\<open>banks = [...]; compressed_banks = [compress(bank) for bank in banks]\<close>.
\<close>

definition compressed_banks :: "nat \<Rightarrow> codec \<Rightarrow> bytes \<Rightarrow> error + bytes list" where
  "compressed_banks bank_size compress data =
     map_err (\<lambda>bank. compress bank Default) (split_banks bank_size data)"

definition sms_container ::
  "(int \<Rightarrow> error + bytes) option \<Rightarrow> codec \<Rightarrow> bytes \<Rightarrow> error + bytes" where
  "sms_container pack compress data =
     (case compressed_banks sms_bank_size compress data of
        Inl e \<Rightarrow> Inl e
      | Inr cbs \<Rightarrow>
          (case call_global pack (int (length cbs)) of
             Inl e \<Rightarrow> Inl e
           | Inr count \<Rightarrow>
               (case map_err (\<lambda>cb. call_global pack (int (length cb))) cbs of
                  Inl e \<Rightarrow> Inl e
                | Inr lens \<Rightarrow> Inr (concat ([magic_SMS, count] @ lens @ cbs)))))"

subsection \<open>The adaptive 16 KiB-bank branch (gb)\<close>

definition gb_bank_size :: nat where
  "gb_bank_size = 16384"

definition compression_credit :: int where
  "compression_credit = 26"

text \<open>
  The flags \<^verbatim>\<open>compress_its\<close>, from the lengths of the compressed banks
  (\<open>sizes ! i\<close> is \<^verbatim>\<open>len(compressed_banks[i])\<close>). \<open>credit\<close> is the initial value of
  \<^verbatim>\<open>compression_credit\<close>, 26 in the source.
\<close>

definition gb_compress_its :: "int \<Rightarrow> bool \<Rightarrow> nat list \<Rightarrow> error + bool list" where
  "gb_compress_its credit compress_gb_speed sizes =
     (if sizes = [] then Inl IndexError
      else
        let compress_its = (replicate (length sizes) True)[0 := False] in
        if \<not> compress_gb_speed then Inr compress_its
        else
          let compress_size = filter (\<lambda>i. i > 98) (drop 1 sizes);
              ordered_size = sort compress_size;
              credit' = (if credit > int (length ordered_size)
                         then int (length ordered_size) - 1 else credit)
          in case py_index ordered_size credit' of
               Inl e \<Rightarrow> Inl e
             | Inr compress_threshold \<Rightarrow>
                 Inr (map (\<lambda>(compress_it, n). if n \<ge> compress_threshold then False else compress_it)
                        (zip compress_its sizes)))"

definition gb_container :: "codec \<Rightarrow> bool \<Rightarrow> bytes \<Rightarrow> error + bytes" where
  "gb_container compress compress_gb_speed data =
     (let banks = split_banks gb_bank_size data in
      case compressed_banks gb_bank_size compress data of
        Inl e \<Rightarrow> Inl e
      | Inr cbs \<Rightarrow>
          (case gb_compress_its compression_credit compress_gb_speed (map length cbs) of
             Inl e \<Rightarrow> Inl e
           | Inr compress_its \<Rightarrow>
               (case map_err
                       (\<lambda>(bank, compressed_bank, compress_it).
                           if compress_it then Inr compressed_bank
                           else compress bank DONT_COMPRESS)
                       (zip banks (zip cbs compress_its)) of
                  Inl e \<Rightarrow> Inl e
                | Inr output_banks \<Rightarrow> Inr (concat output_banks))))"

text \<open>
  Vocabulary of the selection: the candidate list \<open>L\<close> (compressed lengths of the banks
  after bank 0 that exceed the 98 bytes of an empty bank), the number of candidates
  \<open>min(k, len(L) - 1)\<close> and the threshold at that index of the sorted candidates.
\<close>

definition gb_candidates :: "nat list \<Rightarrow> nat list" where
  "gb_candidates sizes = filter (\<lambda>i. i > 98) (drop 1 sizes)"

definition gb_kept :: "int \<Rightarrow> nat list \<Rightarrow> nat" where
  "gb_kept credit sizes = nat (min credit (int (length (gb_candidates sizes)) - 1))"

definition gb_threshold :: "int \<Rightarrow> nat list \<Rightarrow> nat" where
  "gb_threshold credit sizes = sort (gb_candidates sizes) ! gb_kept credit sizes"

text \<open>
  A stand-in for the library's encoder where a concrete one is needed: thirteen header
  bytes, then a marker byte and the input.
\<close>

definition lzma_stand_in :: "bytes \<Rightarrow> bytes" where
  "lzma_stand_in data = replicate 13 0 @ (0 # data)"


subsection \<open>Strings and paths\<close>

text \<open>
  \<^verbatim>\<open>s.endswith(t)\<close> is \<^term>\<open>suffix t s\<close>, \<^verbatim>\<open>s.startswith(t)\<close> is \<^term>\<open>prefix t s\<close> and
  \<^verbatim>\<open>t in s\<close> is \<^term>\<open>sublist t s\<close>. \<^verbatim>\<open>s.lower()\<close> is modelled on ASCII letters.
\<close>

definition lower_char :: "char \<Rightarrow> char" where
  "lower_char c =
     (case map_of (zip ''ABCDEFGHIJKLMNOPQRSTUVWXYZ'' ''abcdefghijklmnopqrstuvwxyz'') c of
        None \<Rightarrow> c
      | Some d \<Rightarrow> d)"

definition str_lower :: "string \<Rightarrow> string" where
  "str_lower s = map lower_char s"

text \<open>\<^verbatim>\<open>s.rfind(c)\<close>: the last index of \<open>c\<close>, or \<open>-1\<close>.\<close>

definition rfind :: "char \<Rightarrow> string \<Rightarrow> int" where
  "rfind c s =
     (if c \<in> set s
      then int (length s) - 1 - int (length (takeWhile (\<lambda>x. x \<noteq> c) (rev s)))
      else - 1)"

text \<open>
  \<^verbatim>\<open>PurePath.suffix\<close> and \<^verbatim>\<open>PurePath.stem\<close> of a file name: the name is cut at its
  last dot unless that dot is the first or the last character.
  \<^verbatim>\<open>with_suffix("")\<close> leaves the stem.
\<close>

definition path_suffix :: "string \<Rightarrow> string" where
  "path_suffix nm =
     (let i = rfind (CHR ''.'') nm
      in if 0 < i \<and> i < int (length nm) - 1 then drop (nat i) nm else [])"

definition path_stem :: "string \<Rightarrow> string" where
  "path_stem nm =
     (let i = rfind (CHR ''.'') nm
      in if 0 < i \<and> i < int (length nm) - 1 then take (nat i) nm else nm)"

text \<open>\<^verbatim>\<open>str(n)\<close> for a natural number.\<close>

definition digit_char :: "nat \<Rightarrow> char" where
  "digit_char d = ''0123456789'' ! d"

function str_nat :: "nat \<Rightarrow> string" where
  "str_nat n = (if n < 10 then [digit_char n] else str_nat (n div 10) @ [digit_char (n mod 10)])"
  by pat_completeness auto
termination
  by (relation "measure id") auto

declare str_nat.simps [simp del]

definition newline :: string where
  "newline = [CHR 0x0A]"

subsection \<open>The registry \<^verbatim>\<open>COMPRESSIONS\<close>\<close>

text \<open>
  The decorator registers \<^verbatim>\<open>compress_lzma\<close> under the keys \<^verbatim>\<open>lzma\<close> and
  \<^verbatim>\<open>.lzma\<close>; it is the only function decorated.
\<close>

definition COMPRESSIONS :: "(bytes \<Rightarrow> bytes) \<Rightarrow> bool \<Rightarrow> string \<Rightarrow> codec option" where
  "COMPRESSIONS lzma_alone args_gb_speed key =
     (if key = ''lzma'' \<or> key = ''.lzma''
      then Some (compress_lzma lzma_alone args_gb_speed) else None)"

definition in_COMPRESSIONS :: "string \<Rightarrow> bool" where
  "in_COMPRESSIONS key = (key = ''lzma'' \<or> key = ''.lzma'')"

subsection \<open>The image catalog: \<^verbatim>\<open>ROM.__init__\<close> and \<^verbatim>\<open>find_roms\<close>\<close>

text \<open>
  A directory of \<^verbatim>\<open>roms/<folder>\<close> is a list of files, each a name and its bytes.
  An entry of the override table holds the strings found under \<^verbatim>\<open>name\<close>,
  \<^verbatim>\<open>publish\<close> and \<^verbatim>\<open>enable_save\<close>, \<open>None\<close> where the key is absent.
\<close>

type_synonym dir = "(string \<times> bytes) list"

record romdef =
  rd_name :: "string option"
  rd_publish :: "string option"
  rd_enable_save :: "string option"

definition empty_romdef :: romdef where
  "empty_romdef = \<lparr>rd_name = None, rd_publish = None, rd_enable_save = None\<rparr>"

text \<open>
  A ROM object. \<open>path\<close> is the file's name in its folder; \<open>contents\<close> is the file the
  path points to, as it is when the object is created (\<^verbatim>\<open>rom.read()\<close>; the script never
  writes to a file it has listed).
\<close>

record rom =
  rom_id :: nat
  path :: string
  filename :: string
  name :: string
  publish :: bool
  enable_save :: bool
  contents :: bytes

text \<open>The properties \<^verbatim>\<open>rom.size\<close> (\<^verbatim>\<open>path.stat().st_size\<close>) and \<^verbatim>\<open>rom.ext\<close>.\<close>

definition st_size :: "rom \<Rightarrow> nat" where
  "st_size r = length (contents r)"

definition ext :: "rom \<Rightarrow> string" where
  "ext r = str_lower (drop 1 (path_suffix (path r)))"

text \<open>
  \<^verbatim>\<open>--no-save\<close> is declared with \<^verbatim>\<open>dest="save", action="store_false"\<close>:
  \<^verbatim>\<open>args.save\<close> is true unless the flag is given.
\<close>

definition arg_save :: "bool \<Rightarrow> bool" where
  "arg_save no_save_given = (\<not> no_save_given)"

text \<open>
  \<^verbatim>\<open>ROM.__init__\<close>. The \<^verbatim>\<open>setdefault\<close> calls fill the absent keys with the file's
  stem, \<^verbatim>\<open>'1'\<close> and \<^verbatim>\<open>'0'\<close>; \<open>sv\<close> is the global \<^verbatim>\<open>args.save\<close>.
\<close>

definition file_stem :: "string \<Rightarrow> string" where
  "file_stem filepath =
     (if in_COMPRESSIONS (path_suffix filepath) \<or> path_suffix filepath = ''.cdk''
      then path_stem (path_stem filepath) else path_stem filepath)"

definition entry_of :: "(string \<rightharpoonup> romdef) \<Rightarrow> string \<Rightarrow> romdef" where
  "entry_of romdefs stem = (case romdefs stem of None \<Rightarrow> empty_romdef | Some d \<Rightarrow> d)"

definition entry_name :: "(string \<rightharpoonup> romdef) \<Rightarrow> string \<Rightarrow> string" where
  "entry_name romdefs stem =
     (case rd_name (entry_of romdefs stem) of None \<Rightarrow> stem | Some n \<Rightarrow> n)"

definition entry_publish :: "(string \<rightharpoonup> romdef) \<Rightarrow> string \<Rightarrow> string" where
  "entry_publish romdefs stem =
     (case rd_publish (entry_of romdefs stem) of None \<Rightarrow> ''1'' | Some v \<Rightarrow> v)"

definition entry_enable_save :: "(string \<rightharpoonup> romdef) \<Rightarrow> string \<Rightarrow> string" where
  "entry_enable_save romdefs stem =
     (case rd_enable_save (entry_of romdefs stem) of None \<Rightarrow> ''0'' | Some v \<Rightarrow> v)"

definition ROM_init :: "bool \<Rightarrow> (string \<rightharpoonup> romdef) \<Rightarrow> string \<times> bytes \<Rightarrow> rom" where
  "ROM_init sv romdefs file =
     (let stem = file_stem (fst file)
      in \<lparr>rom_id = 0, path = fst file, filename = stem, name = entry_name romdefs stem,
          publish = (entry_publish romdefs stem = ''1''),
          enable_save = (entry_enable_save romdefs stem = ''1'' \<or> sv),
          contents = snd file\<rparr>)"

text \<open>The loop over \<^verbatim>\<open>found_roms\<close>: a display name ending in \<^verbatim>\<open>_no_save\<close>.\<close>

definition apply_no_save :: "rom \<Rightarrow> rom" where
  "apply_no_save r =
     (if suffix ''_no_save'' (name r)
      then r\<lparr>name := take (length (name r) - length ''_no_save'') (name r),
             enable_save := False\<rparr>
      else r)"

definition find_roms :: "bool \<Rightarrow> (string \<rightharpoonup> romdef) \<Rightarrow> string \<Rightarrow> dir \<Rightarrow> rom list" where
  "find_roms sv romdefs extension d =
     (let e = str_lower extension;
          e = (if \<not> prefix ''.'' e then ''.'' @ e else e);
          rom_files = filter (\<lambda>r. suffix e (str_lower (fst r))) d;
          rom_files = sort_key fst rom_files;
          found_roms = map (ROM_init sv romdefs) rom_files
      in map apply_no_save found_roms)"

subsection \<open>\<^verbatim>\<open>ROMParser._compress_rom\<close>\<close>

definition MAX_COMPRESSED_NES_SIZE :: nat where
  "MAX_COMPRESSED_NES_SIZE = 0x00080010"

definition MAX_COMPRESSED_PCE_SIZE :: nat where
  "MAX_COMPRESSED_PCE_SIZE = 0x00049000"

definition MAX_COMPRESSED_WSV_SIZE :: nat where
  "MAX_COMPRESSED_WSV_SIZE = 0x00080000"

definition MAX_COMPRESSED_SG_COL_SIZE :: nat where
  "MAX_COMPRESSED_SG_COL_SIZE = 60 * 1024"

definition MAX_COMPRESSED_A7800_SIZE :: nat where
  "MAX_COMPRESSED_A7800_SIZE = 131200"

definition MAX_COMPRESSED_MSX_SIZE :: nat where
  "MAX_COMPRESSED_MSX_SIZE = 136 * 1024"

text \<open>
  The first six branches of the chain are alike: a size cap, then the whole file through
  the codec. \<open>single_segment_cap\<close> gives the cap of the first of them that matches
  \<^verbatim>\<open>variable_name\<close>, in the order of the chain.
\<close>

definition single_segment_cap :: "string \<Rightarrow> nat option" where
  "single_segment_cap variable_name =
     (if sublist ''nes_system'' variable_name then Some MAX_COMPRESSED_NES_SIZE
      else if sublist ''pce_system'' variable_name then Some MAX_COMPRESSED_PCE_SIZE
      else if sublist ''msx_system'' variable_name then Some MAX_COMPRESSED_MSX_SIZE
      else if sublist ''wsv_system'' variable_name then Some MAX_COMPRESSED_WSV_SIZE
      else if sublist ''a7800_system'' variable_name then Some MAX_COMPRESSED_A7800_SIZE
      else if variable_name = ''col_system'' \<or> variable_name = ''sg1000_system''
        then Some MAX_COMPRESSED_SG_COL_SIZE
      else None)"

text \<open>\<^verbatim>\<open>output_file.write_bytes(b)\<close> when the bytes were computed without an exception.\<close>

definition write_bytes :: "string \<Rightarrow> error + bytes \<Rightarrow> dir \<Rightarrow> error + dir" where
  "write_bytes output_file result d =
     (case result of Inl e \<Rightarrow> Inl e | Inr b \<Rightarrow> Inr (AList.update output_file b d))"

text \<open>
  \<open>lzma_alone\<close> and \<open>args_gb_speed\<close> are what the codec reads (the library and the global
  \<^verbatim>\<open>args.compress_gb_speed\<close>); the result is the folder after the call, or the
  exception raised.
\<close>

definition compress_rom ::
  "(bytes \<Rightarrow> bytes) \<Rightarrow> bool \<Rightarrow> string \<Rightarrow> rom \<Rightarrow> bool \<Rightarrow> string option \<Rightarrow> dir \<Rightarrow> error + dir" where
  "compress_rom lzma_alone args_gb_speed variable_name r compress_gb_speed compress d =
     (if \<not> publish r then Inr d
      else
        let method = (case compress of None \<Rightarrow> ''lz4'' | Some c \<Rightarrow> c) in
        if \<not> in_COMPRESSIONS method then Inl ValueError
        else
          let method = (if hd method \<noteq> CHR ''.'' then ''.'' @ method else method);
              output_file = path r @ method
          in case COMPRESSIONS lzma_alone args_gb_speed method of
               None \<Rightarrow> Inl KeyError
             | Some codec \<Rightarrow>
                 (case single_segment_cap variable_name of
                    Some cap \<Rightarrow>
                      if st_size r > cap then Inr d
                      else write_bytes output_file (codec (contents r) Default) d
                  | None \<Rightarrow>
                      if variable_name = ''sms_system'' \<or> variable_name = ''gg_system''
                         \<or> variable_name = ''md_system''
                      then write_bytes output_file (sms_container module_pack codec (contents r)) d
                      else if sublist ''gb_system'' variable_name
                      then write_bytes output_file
                             (gb_container codec compress_gb_speed (contents r)) d
                      else Inr d))"

subsection \<open>\<^verbatim>\<open>ROMParser.generate_system\<close>: the list of images\<close>

text \<open>What the script takes from outside: the command line and its collaborators.\<close>

record args =
  args_flash_size :: int
  args_coverflow :: int
  args_off_saveflash :: int
  args_compress :: "string option"
  args_compress_gb_speed :: bool
  args_nofrendo :: int
  args_save :: bool
  args_verbose :: bool

text \<open>
  \<open>lzma_alone\<close> is the library's encoder; \<open>dsk_tool\<close> is the effect on the folder of one
  of the disk conversion scripts run as a subprocess; the two save-size functions and
  \<open>img_size\<close> read files this model does not hold; \<open>parse_msx_bios_files\<close> is the result of
  that check; \<open>romdef\<close> gives, by folder, the override table in effect (after
  \<^verbatim>\<open>roms/<folder>.json\<close> has replaced it, when that file loads); \<open>cover\<close> gives the
  entries \<^verbatim>\<open>_cover_width\<close> and \<^verbatim>\<open>_cover_height\<close> of that table, 128 and 96 when absent.
  These collaborators are taken to return: an exception raised inside the encoder, a
  conversion script or a file read is outside this model.
\<close>

record env =
  lzma_alone :: "bytes \<Rightarrow> bytes"
  dsk_tool :: "string \<Rightarrow> rom \<Rightarrow> string \<Rightarrow> dir \<Rightarrow> dir"
  get_gameboy_save_size :: "rom \<Rightarrow> nat"
  get_nes_save_size :: "rom \<Rightarrow> nat"
  img_size :: "rom \<Rightarrow> nat"
  parse_msx_bios_files :: bool
  romdef :: "string \<Rightarrow> (string \<rightharpoonup> romdef)"
  cover :: "string \<Rightarrow> int \<times> int"

definition contains_rom_by_name :: "rom \<Rightarrow> rom list \<Rightarrow> bool" where
  "contains_rom_by_name r roms = (name r \<in> set (map name roms))"

definition find_compressed_roms ::
  "bool \<Rightarrow> (string \<rightharpoonup> romdef) \<Rightarrow> string list \<Rightarrow> string option \<Rightarrow> dir \<Rightarrow> rom list" where
  "find_compressed_roms sv romdefs extensions compress d =
     (case compress of
        None \<Rightarrow> []
      | Some c \<Rightarrow>
          if c = [] then []
          else concat (map (\<lambda>e. find_roms sv romdefs (e @ ''.'' @ c) d) extensions))"

definition find_cdk_disks :: "bool \<Rightarrow> (string \<rightharpoonup> romdef) \<Rightarrow> dir \<Rightarrow> rom list" where
  "find_cdk_disks sv romdefs d = map apply_no_save (find_roms sv romdefs ''cdk'' d)"

definition convert_dsk ::
  "(string \<Rightarrow> rom \<Rightarrow> string \<Rightarrow> dir \<Rightarrow> dir) \<Rightarrow> string \<Rightarrow> string option \<Rightarrow> rom \<Rightarrow> dir \<Rightarrow> dir" where
  "convert_dsk tool variable_name compress dsk d =
     (if \<not> publish dsk then d
      else
        let method = (case compress of None \<Rightarrow> ''none'' | Some c \<Rightarrow> c);
            d1 = (if sublist ''msx_system'' variable_name
                  then tool ''tools/dsk2lzma.py'' dsk method d else d)
        in if sublist ''amstrad_system'' variable_name
           then tool ''tools/amdsk2lzma.py'' dsk method d1 else d1)"

text \<open>
  From the first listing to \<^verbatim>\<open>roms_raw.extend(cdk_disks)\<close>: the raw images, with the
  disks that have a converted counterpart replaced by it. The result is
  \<^verbatim>\<open>roms_uncompressed\<close>, \<^verbatim>\<open>roms_raw\<close> and the folder.
\<close>

definition list_raw_roms ::
  "env \<Rightarrow> bool \<Rightarrow> string \<Rightarrow> string list \<Rightarrow> (string \<rightharpoonup> romdef) \<Rightarrow> string option \<Rightarrow> dir
     \<Rightarrow> rom list \<times> rom list \<times> dir" where
  "list_raw_roms E sv variable_name extensions romdefs compress d =
     (let roms_raw = concat (map (\<lambda>e. find_roms sv romdefs e d) extensions);
          roms_uncompressed = roms_raw;
          cdk_disks = find_cdk_disks sv romdefs d;
          disks_raw = filter (\<lambda>r. \<not> contains_rom_by_name r cdk_disks) roms_raw;
          disks_raw = filter (\<lambda>r. ext r = ''dsk'') disks_raw;
          d1 = (if disks_raw \<noteq> []
                then fold (convert_dsk (dsk_tool E) variable_name compress) disks_raw d else d);
          cdk_disks = (if disks_raw \<noteq> [] then find_cdk_disks sv romdefs d1 else cdk_disks);
          roms_raw = filter (\<lambda>r. \<not> contains_rom_by_name r cdk_disks) roms_raw @ cdk_disks
      in (roms_uncompressed, roms_raw, d1))"

text \<open>A loop over calls that may raise; an exception leaves the state reached so far.\<close>

fun fold_err :: "('a \<Rightarrow> 's \<Rightarrow> error + 's) \<Rightarrow> 'a list \<Rightarrow> 's \<Rightarrow> (error \<times> 's) + 's" where
  "fold_err f [] s = Inr s"
| "fold_err f (x # xs) s =
     (case f x s of Inl e \<Rightarrow> Inl (e, s) | Inr s' \<Rightarrow> fold_err f xs s')"

text \<open>
  From \<^verbatim>\<open>roms_compressed = find_compressed_roms()\<close> to the list \<^verbatim>\<open>roms\<close>: the raw
  images without a compressed counterpart are compressed, the compressed images are
  listed again, and the list is all compressed images followed by the raw images that
  still have no compressed counterpart.
\<close>

definition compress_and_list ::
  "env \<Rightarrow> args \<Rightarrow> string \<Rightarrow> string list \<Rightarrow> (string \<rightharpoonup> romdef) \<Rightarrow> string option \<Rightarrow> bool
     \<Rightarrow> rom list \<Rightarrow> dir \<Rightarrow> (error \<times> dir) + (rom list \<times> dir)" where
  "compress_and_list E A variable_name extensions romdefs compress compress_gb_speed roms_raw d =
     (let roms_compressed = find_compressed_roms (args_save A) romdefs extensions compress d;
          roms_raw = filter (\<lambda>r. \<not> contains_rom_by_name r roms_compressed) roms_raw
      in if roms_raw \<noteq> [] \<and> compress \<noteq> None then
           (case fold_err
                   (\<lambda>r. compress_rom (lzma_alone E) (args_compress_gb_speed A) variable_name r
                           compress_gb_speed compress)
                   roms_raw d of
              Inl ed \<Rightarrow> Inl ed
            | Inr d' \<Rightarrow>
                let roms_compressed =
                      find_compressed_roms (args_save A) romdefs extensions compress d'
                in Inr (roms_compressed
                        @ filter (\<lambda>r. \<not> contains_rom_by_name r roms_compressed) roms_raw, d'))
         else Inr (roms_compressed
                   @ filter (\<lambda>r. \<not> contains_rom_by_name r roms_compressed) roms_raw, d))"

text \<open>\<^verbatim>\<open>for rom in roms: rom.rom_id = current_id; current_id += 1\<close>\<close>

fun assign_ids :: "rom list \<Rightarrow> nat \<Rightarrow> rom list \<times> nat" where
  "assign_ids [] current_id = ([], current_id)"
| "assign_ids (r # roms) current_id =
     (let (roms', current_id') = assign_ids roms (current_id + 1)
      in (r\<lparr>rom_id := current_id\<rparr> # roms', current_id'))"

subsection \<open>\<^verbatim>\<open>ROMParser.generate_system\<close>: sizes and the generated table\<close>

definition SAVE_SIZES :: "string \<rightharpoonup> nat" where
  "SAVE_SIZES = map_of
     [(''nes'', 24 * 1024), (''sms'', 60 * 1024), (''gg'', 60 * 1024), (''col'', 60 * 1024),
      (''sg'', 60 * 1024), (''pce'', 76 * 1024), (''msx'', 272 * 1024), (''gw'', 4 * 1024),
      (''wsv'', 28 * 1024), (''md'', 144 * 1024), (''a7800'', 36 * 1024),
      (''amstrad'', 132 * 1024)]"

text \<open>The value of \<^verbatim>\<open>save_size\<close> when the loop reaches a published image.\<close>

definition save_size_of :: "env \<Rightarrow> args \<Rightarrow> string \<Rightarrow> rom \<Rightarrow> nat" where
  "save_size_of E A folder r =
     (if folder = ''gb'' then get_gameboy_save_size E r
      else if folder = ''nes'' \<and> args_nofrendo A = 0 then get_nes_save_size E r
      else (case SAVE_SIZES folder of None \<Rightarrow> 0 | Some n \<Rightarrow> n))"

definition aligned_size :: nat where
  "aligned_size = 4 * 1024"

text \<open>
  One round of the loop over \<^verbatim>\<open>roms\<close> on
  \<open>(system_save_size, total_save_size, total_rom_size, total_img_size)\<close>.
\<close>

definition add_rom ::
  "env \<Rightarrow> args \<Rightarrow> string \<Rightarrow> rom \<Rightarrow> nat \<times> nat \<times> nat \<times> nat \<Rightarrow> nat \<times> nat \<times> nat \<times> nat" where
  "add_rom E A folder r t =
     (case t of (system_save_size, total_save_size, total_rom_size, total_img_size) \<Rightarrow>
        if \<not> publish r then t
        else
          let rom_save_size =
                ((save_size_of E A folder r + aligned_size - 1) div aligned_size) * aligned_size;
              total_save_size' =
                (if enable_save r then total_save_size + rom_save_size else total_save_size);
              system_save_size' =
                (if enable_save r \<and> system_save_size < rom_save_size
                 then rom_save_size else system_save_size);
              total_img_size' =
                (if args_coverflow A \<noteq> 0 then total_img_size + img_size E r else total_img_size)
          in (system_save_size', total_save_size', total_rom_size + st_size r, total_img_size'))"

definition sum_sizes ::
  "env \<Rightarrow> args \<Rightarrow> string \<Rightarrow> rom list \<Rightarrow> nat \<times> nat \<times> nat \<times> nat" where
  "sum_sizes E A folder roms = fold (add_rom E A folder) roms (0, 0, 0, 0)"

text \<open>The loop over \<^verbatim>\<open>roms_uncompressed\<close> at the end of the function.\<close>

definition larger_rom_size_of :: "rom list \<Rightarrow> nat" where
  "larger_rom_size_of roms_uncompressed =
     fold (\<lambda>r larger_rom_size.
             if ext r \<in> set [''gg'', ''sms'', ''md'', ''gen'', ''bin'']
             then (if larger_rom_size < st_size r then st_size r else larger_rom_size)
             else larger_rom_size)
          roms_uncompressed 0"

text \<open>
  A generated file is a text, or one of the per-family C sources. Of such a source the
  model keeps what the loops put into it: the images given an object file
  (\<^verbatim>\<open>generate_object_file\<close>), the save entries (name and size), the rows of the
  descriptor table (\<^verbatim>\<open>generate_rom_entries\<close>: the index in \<^verbatim>\<open>roms\<close> and the image) and
  \<^verbatim>\<open>roms_count\<close>.
\<close>

datatype content =
    Text string
  | SystemSource "rom list" "(string \<times> nat) list" "(nat \<times> rom) list" nat

definition system_source :: "env \<Rightarrow> args \<Rightarrow> string \<Rightarrow> string \<Rightarrow> rom list \<Rightarrow> content" where
  "system_source E A folder save_prefix roms =
     SystemSource
       (filter publish roms)
       (map (\<lambda>(i, r). (save_prefix @ str_nat i, save_size_of E A folder r))
          (filter (\<lambda>(i, r). publish r \<and> enable_save r) (enumerate 0 roms)))
       (filter (\<lambda>(i, r). publish r) (enumerate 0 roms))
       (length (filter publish roms))"

text \<open>
  The state of a run: the folders under \<^verbatim>\<open>roms/\<close>, the generated files, the log of the
  files opened for writing, and the ROM objects given an identifier so far, in order
  (kept for the statements below; the script keeps them only while a family is
  processed).
\<close>

record world =
  roms_dir :: "string \<Rightarrow> dir"
  files :: "string \<rightharpoonup> content"
  writes :: "string list"
  catalogue :: "rom list"

text \<open>\<^verbatim>\<open>with open(file, "w") as f: f.write(...)\<close>: the file is created or replaced.\<close>

definition open_w :: "string \<Rightarrow> content \<Rightarrow> world \<Rightarrow> world" where
  "open_w file c w = w\<lparr>files := (files w)(file \<mapsto> c), writes := writes w @ [file]\<rparr>"

definition clamp_cover :: "int \<times> int \<Rightarrow> int \<times> int" where
  "clamp_cover wh =
     (case wh of (cover_width, cover_height) \<Rightarrow>
        (if cover_width > 180 then 180 else if cover_width < 64 then 64 else cover_width,
         if cover_height > 136 then 136 else if cover_height < 64 then 64 else cover_height))"

text \<open>
  The function returns \<open>(system_save_size, total_save_size, total_rom_size,
  total_img_size, current_id, larger_rom_size)\<close>. An exception or \<^verbatim>\<open>exit(-1)\<close> comes
  with the state it leaves.
\<close>

definition generate_system ::
  "env \<Rightarrow> args \<Rightarrow> string \<Rightarrow> string \<Rightarrow> string \<Rightarrow> string list \<Rightarrow> string \<Rightarrow> nat
     \<Rightarrow> string option \<Rightarrow> bool \<Rightarrow> world
     \<Rightarrow> (error \<times> world) + ((nat \<times> nat \<times> nat \<times> nat \<times> nat \<times> nat) \<times> world)" where
  "generate_system E A file variable_name folder extensions save_prefix current_id
       compress compress_gb_speed w =
     (let romdefs = romdef E folder in
      case list_raw_roms E (args_save A) variable_name extensions romdefs compress
             (roms_dir w folder) of
        (roms_uncompressed, roms_raw, d1) \<Rightarrow>
          (case compress_and_list E A variable_name extensions romdefs compress
                  compress_gb_speed roms_raw d1 of
             Inl (e, d2) \<Rightarrow> Inl (e, w\<lparr>roms_dir := (roms_dir w)(folder := d2)\<rparr>)
           | Inr (roms0, d2) \<Rightarrow>
               (case assign_ids roms0 current_id of
                  (roms, current_id') \<Rightarrow>
                    let w1 = w\<lparr>roms_dir := (roms_dir w)(folder := d2),
                               catalogue := catalogue w @ roms\<rparr>
                    in case clamp_cover (cover E folder) of
                         (cover_width, cover_height) \<Rightarrow>
                           if cover_width * cover_height > 18600
                           then Inl (SystemExit (- 1), w1)
                           else
                             (case sum_sizes E A folder roms of
                                (system_save_size, total_save_size, total_rom_size,
                                 total_img_size) \<Rightarrow>
                                  Inr ((system_save_size, total_save_size, total_rom_size,
                                        total_img_size, current_id',
                                        larger_rom_size_of roms_uncompressed),
                                       open_w file
                                         (system_source E A folder save_prefix roms) w1)))))"

subsection \<open>\<^verbatim>\<open>ROMParser.write_if_changed\<close>\<close>

definition write_if_changed :: "string \<Rightarrow> string \<Rightarrow> world \<Rightarrow> world" where
  "write_if_changed p data w =
     (if files w p \<noteq> Some (Text data)
      then w\<lparr>files := (files w)(p \<mapsto> Text data), writes := writes w @ [p]\<rparr>
      else w)"

subsection \<open>\<^verbatim>\<open>ROMParser.parse\<close>\<close>

text \<open>The local variables of \<^verbatim>\<open>parse\<close>; \<open>rom_size\<close> is as the last call left it.\<close>

record acc =
  larger_save_size :: nat
  total_save_size :: nat
  total_rom_size :: nat
  sega_larger_rom_size :: nat
  total_img_size :: nat
  build_config :: string
  current_id :: nat
  rom_size :: nat

definition initial_acc :: acc where
  "initial_acc =
     \<lparr>larger_save_size = 0, total_save_size = 0, total_rom_size = 0,
      sega_larger_rom_size = 0, total_img_size = 0, build_config = [],
      current_id = 0, rom_size = 0\<rparr>"

text \<open>
  \<^verbatim>\<open>parse\<close> is a sequence of calls of \<^verbatim>\<open>generate_system\<close>, each followed by the
  updates of the totals. A call is described by its arguments and by what follows it in
  the source: \<open>c_compress\<close> and \<open>c_gb_speed\<close> say whether \<^verbatim>\<open>args.compress\<close> and
  \<^verbatim>\<open>args.compress_gb_speed\<close> are passed (the defaults are \<^verbatim>\<open>None\<close> and \<^verbatim>\<open>False\<close>),
  \<open>c_sega\<close> whether \<^verbatim>\<open>sega_larger_rom_size\<close> is updated, \<open>c_img\<close> whether
  \<^verbatim>\<open>total_img_size += img_size\<close> is there, \<open>c_define\<close> is the line added to
  \<^verbatim>\<open>build_config\<close> when the family has images. The two BIOS calls depend on the
  \<^verbatim>\<open>rom_size\<close> of the call before them.
\<close>

datatype call_kind = Family | NesBios | MsxBios

record call =
  c_kind :: call_kind
  c_file :: string
  c_variable_name :: string
  c_folder :: string
  c_extensions :: "string list"
  c_save_prefix :: string
  c_compress :: bool
  c_gb_speed :: bool
  c_sega :: bool
  c_img :: bool
  c_define :: string

definition call_gb :: call where
  "call_gb =
     \<lparr>c_kind = Family, c_file = ''Core/Src/retro-go/gb_roms.c'', c_variable_name = ''gb_system'',
      c_folder = ''gb'', c_extensions = [''gb'', ''gbc''], c_save_prefix = ''SAVE_GB_'',
      c_compress = True, c_gb_speed = True, c_sega = False, c_img = True,
      c_define = ''#define ENABLE_EMULATOR_GB'' @ newline\<rparr>"

definition call_nes :: call where
  "call_nes =
     \<lparr>c_kind = Family, c_file = ''Core/Src/retro-go/nes_roms.c'', c_variable_name = ''nes_system'',
      c_folder = ''nes'', c_extensions = [''nes'', ''fds'', ''nsf''], c_save_prefix = ''SAVE_NES_'',
      c_compress = True, c_gb_speed = False, c_sega = False, c_img = True,
      c_define = ''#define ENABLE_EMULATOR_NES'' @ newline\<rparr>"

definition call_nes_bios :: call where
  "call_nes_bios =
     \<lparr>c_kind = NesBios, c_file = ''Core/Src/retro-go/nes_bios.c'', c_variable_name = ''nes_bios'',
      c_folder = ''nes_bios'', c_extensions = [''rom'', ''nes''], c_save_prefix = ''SAVE_NESB_'',
      c_compress = False, c_gb_speed = False, c_sega = False, c_img = True,
      c_define = ''''\<rparr>"

definition call_sms :: call where
  "call_sms =
     \<lparr>c_kind = Family, c_file = ''Core/Src/retro-go/sms_roms.c'', c_variable_name = ''sms_system'',
      c_folder = ''sms'', c_extensions = [''sms''], c_save_prefix = ''SAVE_SMS_'',
      c_compress = False, c_gb_speed = False, c_sega = True, c_img = True,
      c_define = ''#define ENABLE_EMULATOR_SMS'' @ newline\<rparr>"

definition call_gg :: call where
  "call_gg =
     \<lparr>c_kind = Family, c_file = ''Core/Src/retro-go/gg_roms.c'', c_variable_name = ''gg_system'',
      c_folder = ''gg'', c_extensions = [''gg''], c_save_prefix = ''SAVE_GG_'',
      c_compress = False, c_gb_speed = False, c_sega = True, c_img = True,
      c_define = ''#define ENABLE_EMULATOR_GG'' @ newline\<rparr>"

definition call_md :: call where
  "call_md =
     \<lparr>c_kind = Family, c_file = ''Core/Src/retro-go/md_roms.c'', c_variable_name = ''md_system'',
      c_folder = ''md'', c_extensions = [''md'', ''gen'', ''bin''], c_save_prefix = ''SAVE_MD_'',
      c_compress = False, c_gb_speed = False, c_sega = True, c_img = True,
      c_define = ''#define ENABLE_EMULATOR_MD'' @ newline\<rparr>"

definition call_col :: call where
  "call_col =
     \<lparr>c_kind = Family, c_file = ''Core/Src/retro-go/col_roms.c'', c_variable_name = ''col_system'',
      c_folder = ''col'', c_extensions = [''col''], c_save_prefix = ''SAVE_COL_'',
      c_compress = False, c_gb_speed = False, c_sega = False, c_img = True,
      c_define = ''#define ENABLE_EMULATOR_COL'' @ newline\<rparr>"

definition call_sg1000 :: call where
  "call_sg1000 =
     \<lparr>c_kind = Family, c_file = ''Core/Src/retro-go/sg1000_roms.c'', c_variable_name = ''sg1000_system'',
      c_folder = ''sg'', c_extensions = [''sg''], c_save_prefix = ''SAVE_SG1000_'',
      c_compress = False, c_gb_speed = False, c_sega = False, c_img = True,
      c_define = ''#define ENABLE_EMULATOR_SG1000'' @ newline\<rparr>"

definition call_pce :: call where
  "call_pce =
     \<lparr>c_kind = Family, c_file = ''Core/Src/retro-go/pce_roms.c'', c_variable_name = ''pce_system'',
      c_folder = ''pce'', c_extensions = [''pce''], c_save_prefix = ''SAVE_PCE_'',
      c_compress = True, c_gb_speed = False, c_sega = False, c_img = True,
      c_define = ''#define ENABLE_EMULATOR_PCE'' @ newline\<rparr>"

definition call_gw :: call where
  "call_gw =
     \<lparr>c_kind = Family, c_file = ''Core/Src/retro-go/gw_roms.c'', c_variable_name = ''gw_system'',
      c_folder = ''gw'', c_extensions = [''gw''], c_save_prefix = ''SAVE_GW_'',
      c_compress = False, c_gb_speed = False, c_sega = False, c_img = True,
      c_define = ''#define ENABLE_EMULATOR_GW'' @ newline\<rparr>"

definition call_msx :: call where
  "call_msx =
     \<lparr>c_kind = Family, c_file = ''Core/Src/retro-go/msx_roms.c'', c_variable_name = ''msx_system'',
      c_folder = ''msx'', c_extensions = [''rom'', ''mx1'', ''mx2'', ''dsk''], c_save_prefix = ''SAVE_MSX_'',
      c_compress = True, c_gb_speed = False, c_sega = False, c_img = True,
      c_define = ''#define ENABLE_EMULATOR_MSX'' @ newline\<rparr>"

definition call_msx_bios :: call where
  "call_msx_bios =
     \<lparr>c_kind = MsxBios, c_file = ''Core/Src/retro-go/msx_bios.c'', c_variable_name = ''msx_bios'',
      c_folder = ''msx_bios'', c_extensions = [''rom''], c_save_prefix = ''SAVE_MSXB_'',
      c_compress = False, c_gb_speed = False, c_sega = False, c_img = True,
      c_define = ''''\<rparr>"

definition call_wsv :: call where
  "call_wsv =
     \<lparr>c_kind = Family, c_file = ''Core/Src/retro-go/wsv_roms.c'', c_variable_name = ''wsv_system'',
      c_folder = ''wsv'', c_extensions = [''bin'', ''sv''], c_save_prefix = ''SAVE_WSV_'',
      c_compress = True, c_gb_speed = False, c_sega = False, c_img = False,
      c_define = ''#define ENABLE_EMULATOR_WSV'' @ newline\<rparr>"

definition call_a7800 :: call where
  "call_a7800 =
     \<lparr>c_kind = Family, c_file = ''Core/Src/retro-go/a7800_roms.c'', c_variable_name = ''a7800_system'',
      c_folder = ''a7800'', c_extensions = [''a78'', ''bin''], c_save_prefix = ''SAVE_A7800_'',
      c_compress = True, c_gb_speed = False, c_sega = False, c_img = False,
      c_define = ''#define ENABLE_EMULATOR_A7800'' @ newline\<rparr>"

definition call_amstrad :: call where
  "call_amstrad =
     \<lparr>c_kind = Family, c_file = ''Core/Src/retro-go/amstrad_roms.c'', c_variable_name = ''amstrad_system'',
      c_folder = ''amstrad'', c_extensions = [''dsk''], c_save_prefix = ''SAVE_AMSTRAD_'',
      c_compress = True, c_gb_speed = False, c_sega = False, c_img = False,
      c_define = ''#define ENABLE_EMULATOR_AMSTRAD'' @ newline\<rparr>"

text \<open>The calls after \<^verbatim>\<open>build/mappers.h\<close> is recreated, in the order of the source.\<close>

definition later_calls :: "call list" where
  "later_calls =
     [call_nes, call_nes_bios, call_sms, call_gg,
      call_md, call_col, call_sg1000, call_pce,
      call_gw, call_msx, call_msx_bios, call_wsv,
      call_a7800, call_amstrad]"

text \<open>The statements after a call of a family.\<close>

definition after_family ::
  "call \<Rightarrow> nat \<times> nat \<times> nat \<times> nat \<times> nat \<times> nat \<Rightarrow> acc \<Rightarrow> acc" where
  "after_family c res a =
     (case res of (system_save_size, save_size, rsize, isize, cid, larger_rom_size) \<Rightarrow>
        a\<lparr>sega_larger_rom_size :=
             (if c_sega c \<and> sega_larger_rom_size a < larger_rom_size
              then larger_rom_size else sega_larger_rom_size a),
          total_save_size := total_save_size a + save_size,
          total_rom_size := total_rom_size a + rsize,
          total_img_size := (if c_img c then total_img_size a + isize else total_img_size a),
          build_config := build_config a @ (if rsize > 0 then c_define c else []),
          larger_save_size :=
             (if system_save_size > larger_save_size a
              then system_save_size else larger_save_size a),
          current_id := cid,
          rom_size := rsize\<rparr>)"

text \<open>The statements after a BIOS call that lists real extensions, and after one that
  lists the extension no file has.\<close>

definition after_bios :: "nat \<times> nat \<times> nat \<times> nat \<times> nat \<times> nat \<Rightarrow> acc \<Rightarrow> acc" where
  "after_bios res a =
     (case res of (system_save_size, save_size, rsize, isize, cid, larger_rom_size) \<Rightarrow>
        a\<lparr>total_save_size := total_save_size a + save_size,
          total_rom_size := total_rom_size a + rsize,
          total_img_size := total_img_size a + isize,
          current_id := cid,
          rom_size := rsize\<rparr>)"

definition after_fake :: "nat \<times> nat \<times> nat \<times> nat \<times> nat \<times> nat \<Rightarrow> acc \<Rightarrow> acc" where
  "after_fake res a =
     (case res of (system_save_size, save_size, rsize, isize, cid, larger_rom_size) \<Rightarrow>
        a\<lparr>current_id := cid, rom_size := rsize\<rparr>)"

definition call_generate_system ::
  "env \<Rightarrow> args \<Rightarrow> call \<Rightarrow> string list \<Rightarrow> nat \<Rightarrow> world
     \<Rightarrow> (error \<times> world) + ((nat \<times> nat \<times> nat \<times> nat \<times> nat \<times> nat) \<times> world)" where
  "call_generate_system E A c extensions cid w =
     generate_system E A (c_file c) (c_variable_name c) (c_folder c) extensions
       (c_save_prefix c) cid
       (if c_compress c then args_compress A else None)
       (if c_gb_speed c then args_compress_gb_speed A else False) w"

definition run_call ::
  "env \<Rightarrow> args \<Rightarrow> call \<Rightarrow> acc \<times> world \<Rightarrow> (error \<times> world) + (acc \<times> world)" where
  "run_call E A c aw =
     (case aw of (a, w) \<Rightarrow>
        (case c_kind c of
           Family \<Rightarrow>
             (case call_generate_system E A c (c_extensions c) (current_id a) w of
                Inl ew \<Rightarrow> Inl ew
              | Inr (res, w') \<Rightarrow> Inr (after_family c res a, w'))
         | NesBios \<Rightarrow>
             if rom_size a > 0 then
               (case call_generate_system E A c (c_extensions c) (current_id a) w of
                  Inl ew \<Rightarrow> Inl ew
                | Inr (res, w') \<Rightarrow> Inr (after_bios res a, w'))
             else
               (case call_generate_system E A c [''fakeToGenerateEmtyC''] (current_id a) w of
                  Inl ew \<Rightarrow> Inl ew
                | Inr (res, w') \<Rightarrow> Inr (after_fake res a, w'))
         | MsxBios \<Rightarrow>
             if rom_size a > 0 then
               (if parse_msx_bios_files E then
                  (case call_generate_system E A c (c_extensions c) (current_id a) w of
                     Inl ew \<Rightarrow> Inl ew
                   | Inr (res, w') \<Rightarrow> Inr (after_bios res a, w'))
                else Inl (SystemExit (- 1), w))
             else
               (case call_generate_system E A c [''fakeToGenerateEmtyC''] (current_id a) w of
                  Inl ew \<Rightarrow> Inl ew
                | Inr (res, w') \<Rightarrow> Inr (after_fake res a, w'))))"

fun run_calls ::
  "env \<Rightarrow> args \<Rightarrow> call list \<Rightarrow> acc \<times> world \<Rightarrow> (error \<times> world) + (acc \<times> world)" where
  "run_calls E A [] aw = Inr aw"
| "run_calls E A (c # cs) aw =
     (case run_call E A c aw of Inl ew \<Rightarrow> Inl ew | Inr aw' \<Rightarrow> run_calls E A cs aw')"

text \<open>
  \<^verbatim>\<open>build/mappers.h\<close> is removed when it is there and created empty.
\<close>

definition recreate_mappers :: "world \<Rightarrow> world" where
  "recreate_mappers w = open_w ''build/mappers.h'' (Text []) w"

definition MAX_CHEAT_CODES :: nat where
  "MAX_CHEAT_CODES = 16"

text \<open>
  The end of \<^verbatim>\<open>parse\<close>, from \<^verbatim>\<open>total_size = ...\<close> on. The print under
  \<^verbatim>\<open>args.verbose\<close> changes no state.
\<close>

definition parse_tail :: "args \<Rightarrow> acc \<Rightarrow> world \<Rightarrow> (error \<times> world) + (acc \<times> world)" where
  "parse_tail A a0 w =
     (let total_size = total_save_size a0 + total_rom_size a0 + total_img_size a0;
          a = a0\<lparr>sega_larger_rom_size := 0\<rparr>
      in if total_size = 0 then Inl (SystemExit (- 1), w)
         else if int total_size > args_flash_size A
         then Inl (SystemExit (- 1), w\<lparr>files := (files w)(''build/roms.a'' := None)\<rparr>)
         else
           let a = a\<lparr>build_config :=
                       build_config a @ ''#define ROM_COUNT '' @ str_nat (current_id a) @ newline
                         @ ''#define MAX_CHEAT_CODES '' @ str_nat MAX_CHEAT_CODES @ newline\<rparr>;
               w = write_if_changed ''build/saveflash.ld''
                     (''__SAVEFLASH_LENGTH__ = '' @ str_nat (total_save_size a) @ '';'' @ newline) w;
               w = (if args_off_saveflash A = 1
                    then write_if_changed ''build/offsaveflash.ld''
                           (''__OFFSAVEFLASH_LENGTH__ = '' @ str_nat (larger_save_size a)
                              @ '';'' @ newline) w
                    else write_if_changed ''build/offsaveflash.ld''
                           (''__OFFSAVEFLASH_LENGTH__ = 0;'' @ newline) w);
               w = write_if_changed ''build/cacheflash.ld''
                     (''__CACHEFLASH_LENGTH__ = '' @ str_nat (sega_larger_rom_size a)
                        @ '';'' @ newline) w;
               w = write_if_changed ''build/config.h'' (build_config a) w
           in Inr (a, w))"

definition parse :: "env \<Rightarrow> args \<Rightarrow> world \<Rightarrow> (error \<times> world) + (acc \<times> world)" where
  "parse E A w =
     (case run_call E A call_gb (initial_acc, w) of
        Inl ew \<Rightarrow> Inl ew
      | Inr (a, w1) \<Rightarrow>
          (case run_calls E A later_calls (a, recreate_mappers w1) of
             Inl ew \<Rightarrow> Inl ew
           | Inr (a', w2) \<Rightarrow> parse_tail A a' w2))"

subsection \<open>Vocabulary for the statements about \<^verbatim>\<open>parse\<close>\<close>

text \<open>
  The end of \<^verbatim>\<open>parse\<close> when no exit is taken: the accumulators it leaves and the four
  calls of \<^verbatim>\<open>write_if_changed\<close>, innermost first.
\<close>

definition tail_acc :: "acc \<Rightarrow> acc" where
  "tail_acc a0 =
     a0\<lparr>sega_larger_rom_size := 0,
        build_config :=
          build_config a0 @ ''#define ROM_COUNT '' @ str_nat (current_id a0) @ newline
            @ ''#define MAX_CHEAT_CODES '' @ str_nat MAX_CHEAT_CODES @ newline\<rparr>"

definition tail_writes :: "args \<Rightarrow> acc \<Rightarrow> world \<Rightarrow> world" where
  "tail_writes A a w =
     write_if_changed ''build/config.h'' (build_config a)
       (write_if_changed ''build/cacheflash.ld''
          (''__CACHEFLASH_LENGTH__ = '' @ str_nat (sega_larger_rom_size a) @ '';'' @ newline)
          (write_if_changed ''build/offsaveflash.ld''
             (if args_off_saveflash A = 1
              then ''__OFFSAVEFLASH_LENGTH__ = '' @ str_nat (larger_save_size a) @ '';'' @ newline
              else ''__OFFSAVEFLASH_LENGTH__ = 0;'' @ newline)
             (write_if_changed ''build/saveflash.ld''
                (''__SAVEFLASH_LENGTH__ = '' @ str_nat (total_save_size a) @ '';'' @ newline) w)))"







text \<open>The table a family without images gets.\<close>

definition empty_source :: content where
  "empty_source = SystemSource [] [] [] 0"

subsection \<open>A small run\<close>

text \<open>
  A concrete run for the closed statements: the folder \<^verbatim>\<open>roms/sms\<close> holds two
  images, \<^verbatim>\<open>a.sms\<close> of three bytes, which the override table does not publish, and
  \<^verbatim>\<open>b.sms\<close> of one byte, whose entry has \<^verbatim>\<open>enable_save\<close> 0; every other folder is
  empty; no compression is asked for and \<^verbatim>\<open>--no-save\<close> is not given. The collaborators
  are stand-ins.
\<close>

definition demo_romdefs :: "string \<rightharpoonup> romdef" where
  "demo_romdefs =
     [''a'' \<mapsto> \<lparr>rd_name = None, rd_publish = Some ''0'', rd_enable_save = None\<rparr>,
      ''b'' \<mapsto> \<lparr>rd_name = None, rd_publish = None, rd_enable_save = Some ''0''\<rparr>]"

definition demo_dir :: dir where
  "demo_dir = [(''b.sms'', [4]), (''a.sms'', [1, 2, 3])]"

definition demo_env :: env where
  "demo_env =
     \<lparr>lzma_alone = lzma_stand_in, dsk_tool = (\<lambda>tool dsk method d. d),
      get_gameboy_save_size = (\<lambda>r. 4096), get_nes_save_size = (\<lambda>r. 4096),
      img_size = (\<lambda>r. 0), parse_msx_bios_files = True,
      romdef = (\<lambda>folder. demo_romdefs), cover = (\<lambda>folder. (128, 96))\<rparr>"

definition demo_args :: "int \<Rightarrow> args" where
  "demo_args n =
     \<lparr>args_flash_size = n, args_coverflow = 0, args_off_saveflash = 0,
      args_compress = None, args_compress_gb_speed = False, args_nofrendo = 0,
      args_save = arg_save False, args_verbose = False\<rparr>"

definition demo_world :: "(string \<rightharpoonup> content) \<Rightarrow> world" where
  "demo_world fs =
     \<lparr>roms_dir = (\<lambda>folder. if folder = ''sms'' then demo_dir else []),
      files = fs, writes = [], catalogue = []\<rparr>"

definition demo_a :: rom where
  "demo_a = \<lparr>rom_id = 0, path = ''a.sms'', filename = ''a'', name = ''a'', publish = False,
              enable_save = True, contents = [1, 2, 3]\<rparr>"

definition demo_b :: rom where
  "demo_b = \<lparr>rom_id = 0, path = ''b.sms'', filename = ''b'', name = ''b'', publish = True,
              enable_save = True, contents = [4]\<rparr>"

text \<open>
  What the run leaves: the table written for the family, the accumulators after the last
  family, and the state then (every family's source, in the order of the calls).
\<close>

definition demo_source :: "string \<Rightarrow> nat \<Rightarrow> content" where
  "demo_source sp cid =
     SystemSource [demo_b\<lparr>rom_id := Suc cid\<rparr>] [(sp @ ''1'', 61440)]
       [(1, demo_b\<lparr>rom_id := Suc cid\<rparr>)] 1"

definition demo_acc :: acc where
  "demo_acc =
     \<lparr>larger_save_size = 61440, total_save_size = 61440, total_rom_size = 1,
      sega_larger_rom_size = 3, total_img_size = 0,
      build_config = ''#define ENABLE_EMULATOR_SMS'' @ newline,
      current_id = 2, rom_size = 0\<rparr>"

definition demo_before :: "call list" where
  "demo_before = [call_nes, call_nes_bios]"

definition demo_after :: "call list" where
  "demo_after = [call_gg, call_md, call_col, call_sg1000, call_pce, call_gw, call_msx,
                 call_msx_bios, call_wsv, call_a7800, call_amstrad]"

definition demo_families :: "(string \<rightharpoonup> content) \<Rightarrow> world" where
  "demo_families fs =
     fold (\<lambda>c. open_w (c_file c) empty_source) demo_after
       (open_w ''Core/Src/retro-go/sms_roms.c'' (demo_source ''SAVE_SMS_'' 0)
          ((fold (\<lambda>c. open_w (c_file c) empty_source) demo_before
              (recreate_mappers (open_w (c_file call_gb) empty_source (demo_world fs))))
           \<lparr>catalogue := [demo_a\<lparr>rom_id := 0\<rparr>, demo_b\<lparr>rom_id := Suc 0\<rparr>]\<rparr>))"



definition demo_done :: "(string \<rightharpoonup> content) \<Rightarrow> world" where
  "demo_done fs = tail_writes (demo_args 1048576) (tail_acc demo_acc) (demo_families fs)"




section \<open>Properties of the compression engine\<close>

lemma filter_below_nth_sorted:
  "sorted xs \<Longrightarrow> distinct xs \<Longrightarrow> k < length xs \<Longrightarrow>
   filter (\<lambda>n. n < xs ! k) xs = take k (xs :: nat list)"
proof (induction xs arbitrary: k)
  case Nil
  then show ?case by simp
next
  case (Cons x xs)
  show ?case
  proof (cases k)
    case 0
    have "\<forall>y\<in>set xs. \<not> y < x" using Cons.prems(1) by auto
    then have "filter (\<lambda>n. n < x) xs = []" by (simp add: filter_empty_conv)
    with 0 show ?thesis by simp
  next
    case (Suc j)
    with Cons.prems have j: "j < length xs" by simp
    then have mem: "xs ! j \<in> set xs" by simp
    with Cons.prems(1,2) have "x < xs ! j" by (metis distinct.simps(2) le_neq_implies_less sorted_simps(2))
    moreover have "filter (\<lambda>n. n < xs ! j) xs = take j xs"
      using Cons.IH [of j] Cons.prems j by simp
    ultimately show ?thesis using Suc by simp
  qed
qed

lemma gb_its_closed_form:
  fixes sizes :: "nat list" and credit :: int
  assumes "sizes \<noteq> []"
    and "py_index (sort (gb_candidates sizes)) k = Inr t"
    and "k = (if credit > int (length (gb_candidates sizes))
              then int (length (gb_candidates sizes)) - 1 else credit)"
  shows "gb_compress_its credit True sizes = Inr (False # map (\<lambda>n. n < t) (drop 1 sizes))"
proof -
  let ?its = "(replicate (length sizes) True)[0 := False]"
  have m: "map (\<lambda>(compress_it, n). if n \<ge> t then False else compress_it) (zip ?its sizes)
        = False # map (\<lambda>n. n < t) (drop 1 sizes)"
    using assms(1) by (cases sizes) (simp_all add: zip_replicate1 o_def not_le)
  have "gb_compress_its credit True sizes =
          (case py_index (sort (gb_candidates sizes)) k of
             Inl e \<Rightarrow> Inl e
           | Inr th \<Rightarrow> Inr (map (\<lambda>(compress_it, n). if n \<ge> th then False else compress_it)
                             (zip ?its sizes)))"
    unfolding gb_compress_its_def Let_def gb_candidates_def assms(3) using assms(1) by simp
  then show ?thesis
    using assms(2) m by simp
qed

text \<open>
  Claim C1, as the code has it. With the speed-priority flag set, a non-empty candidate
  list \<open>L\<close> and a credit \<open>k \<ge> 0\<close> different from \<open>len(L)\<close>, the selection succeeds: bank 0
  is marked uncompressed and every later bank is kept compressed exactly when its
  compressed length is strictly below the threshold, the element at index
  \<open>min(k, len(L) - 1)\<close> of the ascending candidates. When the candidate lengths are pairwise
  distinct, the candidates kept compressed are exactly the \<open>min(k, len(L) - 1)\<close> smallest
  ones, and \<open>len(L) - min(k, len(L) - 1)\<close> candidates are left uncompressed.
\<close>

theorem gb_speed_selection:
  assumes cand: "gb_candidates sizes \<noteq> []"
    and pos: "0 \<le> credit"
    and neq: "credit \<noteq> int (length (gb_candidates sizes))"
  shows "gb_compress_its credit True sizes =
           Inr (False # map (\<lambda>n. n < gb_threshold credit sizes) (drop 1 sizes))
         \<and> (distinct (gb_candidates sizes) \<longrightarrow>
              sort (filter (\<lambda>n. n < gb_threshold credit sizes) (gb_candidates sizes))
                = take (gb_kept credit sizes) (sort (gb_candidates sizes))
            \<and> length (filter (\<lambda>n. \<not> n < gb_threshold credit sizes) (gb_candidates sizes))
                = length (gb_candidates sizes) - gb_kept credit sizes)"
proof -
  let ?L = "gb_candidates sizes"
  let ?k = "gb_kept credit sizes"
  let ?t = "gb_threshold credit sizes"
  from cand have ne: "sizes \<noteq> []" by (auto simp: gb_candidates_def)
  have len: "1 \<le> int (length ?L)" using cand by (cases ?L) simp_all
  have k: "(if credit > int (length ?L) then int (length ?L) - 1 else credit) = int ?k"
    unfolding gb_kept_def min_def using pos neq len cand by auto
  have klt: "?k < length ?L"
    unfolding gb_kept_def min_def using pos len by (simp split: if_splits) linarith
  have idx: "py_index (sort ?L) (int ?k) = Inr ?t"
    using klt by (simp add: py_index_def gb_threshold_def)
  have first: "gb_compress_its credit True sizes =
      Inr (False # map (\<lambda>n. n < ?t) (drop 1 sizes))"
    by (rule gb_its_closed_form [OF ne idx k [symmetric]])
  have second: "sort (filter (\<lambda>n. n < ?t) ?L) = take ?k (sort ?L)
      \<and> length (filter (\<lambda>n. \<not> n < ?t) ?L) = length ?L - ?k" if d: "distinct ?L"
  proof -
    have "filter (\<lambda>n. n < sort ?L ! ?k) (sort ?L) = take ?k (sort ?L)"
      using d klt by (intro filter_below_nth_sorted) simp_all
    then have a: "sort (filter (\<lambda>n. n < ?t) ?L) = take ?k (sort ?L)"
      by (simp add: filter_sort gb_threshold_def)
    then have "length (filter (\<lambda>n. n < ?t) ?L) = ?k"
      using klt by (metis length_sort length_take min.absorb2 less_imp_le_nat)
    moreover have "length (filter (\<lambda>n. n < ?t) ?L) + length (filter (\<lambda>n. \<not> n < ?t) ?L) = length ?L"
      by (rule sum_length_filter_compl)
    ultimately show ?thesis using a by simp
  qed
  from first second show ?thesis by blast
qed

text \<open>
  The example of the specification: banks 1 to 3 compress to 500, 2000 and 50 bytes and
  the credit is 1.
\<close>

theorem gb_speed_selection_witness:
  "gb_candidates [16384, 500, 2000, 50] \<noteq> []
   \<and> (0::int) \<le> 1
   \<and> (1::int) \<noteq> int (length (gb_candidates [16384, 500, 2000, 50]))
   \<and> distinct (gb_candidates [16384, 500, 2000, 50])
   \<and> gb_compress_its 1 True [16384, 500, 2000, 50] = Inr [False, True, False, True]
   \<and> length (filter (\<lambda>n. \<not> n < gb_threshold 1 [16384, 500, 2000, 50])
               (gb_candidates [16384, 500, 2000, 50])) = 1"
proof -
  have c: "gb_candidates [16384, 500, 2000, 50] = [500, 2000]"
    by (simp add: gb_candidates_def)
  have h1: "gb_candidates [16384, 500, 2000, 50] \<noteq> []" by (simp add: c)
  have h2: "(0::int) \<le> 1" by simp
  have h3: "(1::int) \<noteq> int (length (gb_candidates [16384, 500, 2000, 50]))" by (simp add: c)
  have t: "gb_threshold 1 [16384, 500, 2000, 50] = 2000"
    by (simp add: gb_threshold_def gb_kept_def c)
  show ?thesis
    using gb_speed_selection [OF h1 h2 h3] by (simp add: c t gb_kept_def)
qed

text \<open>
  Claim C1 as stated fails where candidates tie at the threshold: with two candidates of
  500 bytes each and the credit 26 of the source, both are marked uncompressed, where the
  claim leaves \<open>len(L) - min(k, len(L) - 1) = 1\<close> bank uncompressed.
\<close>

theorem gb_speed_ties_counterexample:
  "gb_compress_its compression_credit True [16384, 500, 500] = Inr [False, False, False]
   \<and> gb_candidates [16384, 500, 500] = [500, 500]
   \<and> length (gb_candidates [16384, 500, 500])
       - nat (min compression_credit (int (length (gb_candidates [16384, 500, 500])) - 1)) = 1"
  by (simp add: gb_compress_its_def compression_credit_def py_index_def gb_candidates_def)

text \<open>
  Claim C2. The clamp compares with \<open>>\<close>: a candidate list of exactly 26 lengths keeps the
  credit 26 and the threshold is read one past the end; an empty candidate list turns the
  credit into \<open>-1\<close> and the read of the empty list raises as well.
\<close>

theorem gb_credit_index_error:
  "gb_compress_its compression_credit True (16384 # replicate 26 100) = Inl IndexError
   \<and> gb_compress_its compression_credit True [16384] = Inl IndexError"
  by (simp add: gb_compress_its_def compression_credit_def py_index_def)

lemma map_err_Inr: "map_err (\<lambda>x. Inr (g x)) xs = Inr (map g xs)"
  by (induction xs) simp_all

lemma map_err_cong_Inr:
  "(\<And>x. x \<in> set xs \<Longrightarrow> f x = Inr (g x)) \<Longrightarrow> map_err f xs = Inr (map g xs)"
  by (induction xs) simp_all

lemma compressed_banks_lzma:
  "compressed_banks n (compress_lzma lz speed) data =
     Inr (map (\<lambda>bank. drop 13 (lz bank)) (split_banks n data))"
  by (simp add: compressed_banks_def compress_lzma_def map_err_Inr)

text \<open>
  Claim C7. With the module as written, the 128 KiB branch compresses the banks and then
  raises \<^verbatim>\<open>NameError\<close> at the first \<^verbatim>\<open>pack(...)\<close>, for every image: no container is
  produced.
\<close>

theorem sms_container_name_error:
  "sms_container module_pack (compress_lzma lz speed) data = Inl NameError"
  by (simp add: sms_container_def compressed_banks_lzma module_pack_def call_global_def)

text \<open>
  With \<^verbatim>\<open>pack\<close> bound to \<^verbatim>\<open>struct.pack("<l", _)\<close> the branch builds the container
  the specification describes: magic, bank count, one length per bank, the payloads.
\<close>

lemma sms_container_struct_pack:
  assumes "compressed_banks sms_bank_size compress data = Inr cbs"
    and "length cbs < 2 ^ 31"
    and "\<And>cb. cb \<in> set cbs \<Longrightarrow> length cb < 2 ^ 31"
  shows "sms_container (Some struct_pack_l) compress data =
           Inr (magic_SMS @ le32 (of_nat (length cbs))
                @ concat (map (\<lambda>cb. le32 (of_nat (length cb))) cbs) @ concat cbs)"
proof -
  have n: "call_global (Some struct_pack_l) (int (length cbs)) = Inr (le32 (of_nat (length cbs)))"
    using assms(2) by (simp add: call_global_def struct_pack_l_def)
  have "map_err (\<lambda>cb. call_global (Some struct_pack_l) (int (length cb))) cbs
          = Inr (map (\<lambda>cb. le32 (of_nat (length cb))) cbs)"
    using assms(3) by (intro map_err_cong_Inr) (simp add: call_global_def struct_pack_l_def)
  with n assms(1) show ?thesis
    by (simp add: sms_container_def)
qed






text \<open>
  Claim C6 as stated fails with the speed-priority flag set: the sentinel call raises.
\<close>

theorem dont_compress_speed_counterexample:
  "compress_lzma lzma_stand_in True [0x47, 0x42] DONT_COMPRESS = Inl NotImplementedError"
  by (simp add: compress_lzma_def)

text \<open>
  Claim C6, as the code has it. With the speed-priority flag clear, a call with the
  sentinel returns the input bytes unchanged, whatever the input; with the flag set it
  raises \<^verbatim>\<open>NotImplementedError\<close>.
\<close>

theorem dont_compress_returns_raw:
  "compress_lzma lz False data DONT_COMPRESS = Inr data
   \<and> compress_lzma lz True data DONT_COMPRESS = Inl NotImplementedError"
  by (simp add: compress_lzma_def)

section \<open>Properties of the layout planner\<close>

lemma demo_find_sms: "find_roms True demo_romdefs ''sms'' demo_dir = [demo_a, demo_b]"
  by code_simp

lemma demo_find_cdk: "find_roms True demo_romdefs ''cdk'' demo_dir = []"
  by code_simp

lemma demo_ext: "ext demo_a = ''sms''" "ext demo_b = ''sms''"
  by code_simp+

lemma find_roms_Nil: "find_roms sv romdefs e [] = []"
  by (simp add: find_roms_def Let_def)

lemma contains_Nil: "\<not> contains_rom_by_name r []"
  by (simp add: contains_rom_by_name_def)

lemma list_raw_roms_Nil:
  "list_raw_roms E sv v exts romdefs compress [] = ([], [], [])"
  by (simp add: list_raw_roms_def Let_def find_roms_Nil find_cdk_disks_def)

lemma find_compressed_roms_Nil: "find_compressed_roms sv romdefs exts compress [] = []"
  by (simp add: find_compressed_roms_def find_roms_Nil split: option.splits)

lemma compress_and_list_Nil:
  "compress_and_list E A v exts romdefs compress speed [] [] = Inr ([], [])"
  by (simp add: compress_and_list_def Let_def find_compressed_roms_Nil)

lemma generate_system_empty:
  assumes "roms_dir w folder = []" and "cover E folder = (128, 96)"
  shows "generate_system E A file v folder exts sp cid compress speed w
           = Inr ((0, 0, 0, 0, cid, 0), open_w file empty_source w)"
proof -
  have "w\<lparr>roms_dir := (roms_dir w)(folder := []), catalogue := catalogue w @ []\<rparr> = w"
    using assms(1) by (simp add: fun_upd_idem)
  then show ?thesis
    using assms
    by (simp add: generate_system_def Let_def list_raw_roms_Nil compress_and_list_Nil
        clamp_cover_def sum_sizes_def larger_rom_size_of_def system_source_def empty_source_def)
qed

lemma run_call_empty:
  assumes "roms_dir w (c_folder c) = []" and "cover E (c_folder c) = (128, 96)"
    and "parse_msx_bios_files E"
  shows "run_call E A c (a, w) = Inr (a\<lparr>rom_size := 0\<rparr>, open_w (c_file c) empty_source w)"
  using assms
  by (cases "c_kind c")
     (simp_all add: run_call_def call_generate_system_def generate_system_empty
        after_family_def after_bios_def after_fake_def)

lemma roms_dir_open_w [simp]: "roms_dir (open_w f c w) = roms_dir w"
  by (simp add: open_w_def)

lemma catalogue_open_w [simp]: "catalogue (open_w f c w) = catalogue w"
  by (simp add: open_w_def)

lemma run_calls_empty:
  assumes "\<And>c. c \<in> set cs \<Longrightarrow> roms_dir w (c_folder c) = []"
    and "\<And>c. c \<in> set cs \<Longrightarrow> cover E (c_folder c) = (128, 96)"
    and "parse_msx_bios_files E" and "cs \<noteq> []"
  shows "run_calls E A cs (a, w)
           = Inr (a\<lparr>rom_size := 0\<rparr>, fold (\<lambda>c. open_w (c_file c) empty_source) cs w)"
  using assms
proof (induction cs arbitrary: a w)
  case Nil
  then show ?case by simp
next
  case (Cons c cs)
  have one: "run_call E A c (a, w) = Inr (a\<lparr>rom_size := 0\<rparr>, open_w (c_file c) empty_source w)"
    using Cons.prems by (intro run_call_empty) simp_all
  show ?case
  proof (cases "cs = []")
    case True
    then show ?thesis by (simp add: one)
  next
    case False
    have "run_calls E A cs (a\<lparr>rom_size := 0\<rparr>, open_w (c_file c) empty_source w)
            = Inr (a\<lparr>rom_size := 0\<rparr>\<lparr>rom_size := 0\<rparr>,
                   fold (\<lambda>c. open_w (c_file c) empty_source) cs (open_w (c_file c) empty_source w))"
      using Cons.prems False by (intro Cons.IH) simp_all
    then show ?thesis by (simp add: one)
  qed
qed

lemma demo_list_raw:
  "list_raw_roms demo_env True ''sms_system'' [''sms''] demo_romdefs None demo_dir
     = ([demo_a, demo_b], [demo_a, demo_b], demo_dir)"
  by (simp add: list_raw_roms_def Let_def demo_find_sms demo_find_cdk find_cdk_disks_def
      contains_Nil demo_ext)

lemma demo_compress_and_list:
  "compress_and_list demo_env (demo_args n) ''sms_system'' [''sms''] demo_romdefs None False
     [demo_a, demo_b] demo_dir = Inr ([demo_a, demo_b], demo_dir)"
  by (simp add: compress_and_list_def Let_def find_compressed_roms_def contains_Nil)

lemma demo_sum_sizes:
  "sum_sizes demo_env (demo_args n) ''sms'' [demo_a\<lparr>rom_id := i\<rparr>, demo_b\<lparr>rom_id := j\<rparr>]
     = (61440, 61440, 1, 0)"
  by (simp add: sum_sizes_def add_rom_def demo_a_def demo_b_def save_size_of_def SAVE_SIZES_def
      aligned_size_def st_size_def demo_args_def Let_def)

lemma demo_larger: "larger_rom_size_of [demo_a, demo_b] = 3"
  by (simp add: larger_rom_size_of_def demo_ext) (simp add: st_size_def demo_a_def demo_b_def)

lemma demo_system_source:
  "system_source demo_env (demo_args n) ''sms'' sp [demo_a\<lparr>rom_id := cid\<rparr>, demo_b\<lparr>rom_id := Suc cid\<rparr>]
     = demo_source sp cid"
proof -
  have s: "str_nat (Suc 0) = ''1''" by code_simp
  show ?thesis
    by (simp add: system_source_def demo_source_def demo_a_def demo_b_def save_size_of_def
        SAVE_SIZES_def demo_args_def s)
qed

lemma demo_generate_sms:
  assumes "roms_dir w ''sms'' = demo_dir"
  shows "generate_system demo_env (demo_args n) file ''sms_system'' ''sms'' [''sms''] sp cid
           None False w
         = Inr ((61440, 61440, 1, 0, cid + 2, 3),
                open_w file (demo_source sp cid)
                  (w\<lparr>catalogue := catalogue w @ [demo_a\<lparr>rom_id := cid\<rparr>, demo_b\<lparr>rom_id := Suc cid\<rparr>]\<rparr>))"
proof -
  have e: "romdef demo_env ''sms'' = demo_romdefs" "cover demo_env ''sms'' = (128, 96)"
    "args_save (demo_args n) = True"
    by (simp_all add: demo_env_def demo_args_def arg_save_def)
  have w: "w\<lparr>roms_dir := (roms_dir w)(''sms'' := demo_dir),
             catalogue := catalogue w @ [demo_a\<lparr>rom_id := cid\<rparr>, demo_b\<lparr>rom_id := Suc cid\<rparr>]\<rparr>
           = w\<lparr>catalogue := catalogue w @ [demo_a\<lparr>rom_id := cid\<rparr>, demo_b\<lparr>rom_id := Suc cid\<rparr>]\<rparr>"
    using assms by (simp add: fun_upd_idem)
  show ?thesis
    unfolding generate_system_def Let_def e assms demo_list_raw prod.case
      demo_compress_and_list sum.case
    by (simp add: clamp_cover_def demo_sum_sizes demo_larger demo_system_source w)
qed

lemma demo_run_call_sms:
  assumes "roms_dir w ''sms'' = demo_dir"
  shows "run_call demo_env (demo_args n) call_sms (a, w)
         = Inr (after_family call_sms (61440, 61440, 1, 0, current_id a + 2, 3) a,
                open_w ''Core/Src/retro-go/sms_roms.c'' (demo_source ''SAVE_SMS_'' (current_id a))
                  (w\<lparr>catalogue := catalogue w
                        @ [demo_a\<lparr>rom_id := current_id a\<rparr>, demo_b\<lparr>rom_id := Suc (current_id a)\<rparr>]\<rparr>))"
  by (simp add: run_call_def call_generate_system_def call_sms_def demo_generate_sms [OF assms])

lemma run_calls_append:
  "run_calls E A (xs @ ys) aw =
     (case run_calls E A xs aw of Inl ew \<Rightarrow> Inl ew | Inr aw' \<Rightarrow> run_calls E A ys aw')"
  by (induction xs arbitrary: aw) (simp_all split: sum.splits)

lemmas call_defs =
  call_gb_def call_nes_def call_nes_bios_def call_sms_def call_gg_def call_md_def call_col_def
  call_sg1000_def call_pce_def call_gw_def call_msx_def call_msx_bios_def call_wsv_def
  call_a7800_def call_amstrad_def

lemma roms_dir_fold_open_w [simp]:
  "roms_dir (fold (\<lambda>c. open_w (c_file c) src) cs w) = roms_dir w"
  by (induction cs arbitrary: w) simp_all

lemma catalogue_fold_open_w [simp]:
  "catalogue (fold (\<lambda>c. open_w (c_file c) src) cs w) = catalogue w"
  by (induction cs arbitrary: w) simp_all

lemma roms_dir_recreate_mappers [simp]: "roms_dir (recreate_mappers w) = roms_dir w"
  by (simp add: recreate_mappers_def)

lemma catalogue_recreate_mappers [simp]: "catalogue (recreate_mappers w) = catalogue w"
  by (simp add: recreate_mappers_def)

lemma demo_env_simps [simp]:
  "cover demo_env folder = (128, 96)" "parse_msx_bios_files demo_env"
  by (simp_all add: demo_env_def)

lemma demo_world_dir:
  "folder \<noteq> ''sms'' \<Longrightarrow> roms_dir (demo_world fs) folder = []"
  "roms_dir (demo_world fs) ''sms'' = demo_dir"
  "catalogue (demo_world fs) = []"
  by (simp_all add: demo_world_def)

lemma demo_gb:
  "run_call demo_env (demo_args n) call_gb (initial_acc, demo_world fs)
     = Inr (initial_acc\<lparr>rom_size := 0\<rparr>, open_w (c_file call_gb) empty_source (demo_world fs))"
  by (rule run_call_empty) (simp_all add: demo_world_dir call_gb_def)

lemma demo_before_run:
  assumes "roms_dir w = roms_dir (demo_world fs)"
  shows "run_calls demo_env (demo_args n) demo_before (a, w)
     = Inr (a\<lparr>rom_size := 0\<rparr>, fold (\<lambda>c. open_w (c_file c) empty_source) demo_before w)"
  by (rule run_calls_empty) (auto simp: assms demo_before_def demo_world_dir call_defs)

lemma demo_after_run:
  assumes "roms_dir w = roms_dir (demo_world fs)"
  shows "run_calls demo_env (demo_args n) demo_after (a, w)
     = Inr (a\<lparr>rom_size := 0\<rparr>, fold (\<lambda>c. open_w (c_file c) empty_source) demo_after w)"
  by (rule run_calls_empty) (auto simp: assms demo_after_def demo_world_dir call_defs)

lemma later_calls_split: "later_calls = demo_before @ [call_sms] @ demo_after"
  by (simp add: later_calls_def demo_before_def demo_after_def)

lemma demo_later:
  "run_calls demo_env (demo_args n) later_calls
     (initial_acc\<lparr>rom_size := 0\<rparr>,
      recreate_mappers (open_w (c_file call_gb) empty_source (demo_world fs)))
   = Inr (demo_acc, demo_families fs)"
proof -
  let ?w0 = "recreate_mappers (open_w (c_file call_gb) empty_source (demo_world fs))"
  let ?w1 = "fold (\<lambda>c. open_w (c_file c) empty_source) demo_before ?w0"
  let ?a1 = "initial_acc\<lparr>rom_size := 0\<rparr>"
  have c0: "current_id ?a1 = 0" by (simp add: initial_acc_def)
  have b: "run_calls demo_env (demo_args n) demo_before (?a1, ?w0) = Inr (?a1, ?w1)"
    using demo_before_run [where fs = fs and w = ?w0 and a = ?a1 and n = n] by simp
  let ?a2 = "after_family call_sms (61440, 61440, 1, 0, 2, 3) ?a1"
  let ?w2 = "open_w ''Core/Src/retro-go/sms_roms.c'' (demo_source ''SAVE_SMS_'' 0)
                  (?w1\<lparr>catalogue := [demo_a\<lparr>rom_id := 0\<rparr>, demo_b\<lparr>rom_id := Suc 0\<rparr>]\<rparr>)"
  have s: "run_call demo_env (demo_args n) call_sms (?a1, ?w1) = Inr (?a2, ?w2)"
    using demo_run_call_sms [where w = ?w1 and a = ?a1 and n = n]
    by (simp add: demo_world_dir c0 numeral_2_eq_2)
  have a: "run_calls demo_env (demo_args n) demo_after (?a2, ?w2)
     = Inr (?a2\<lparr>rom_size := 0\<rparr>, fold (\<lambda>c. open_w (c_file c) empty_source) demo_after ?w2)"
    by (rule demo_after_run [where fs = fs]) simp
  have acc: "?a2\<lparr>rom_size := 0\<rparr> = demo_acc"
    by (simp add: after_family_def initial_acc_def demo_acc_def call_sms_def)
  have w: "fold (\<lambda>c. open_w (c_file c) empty_source) demo_after ?w2 = demo_families fs"
    by (simp only: demo_families_def)
  have "run_calls demo_env (demo_args n) later_calls (?a1, ?w0)
        = run_calls demo_env (demo_args n) demo_after (?a2, ?w2)"
    unfolding later_calls_split run_calls_append b sum.case
    by (simp only: run_calls.simps s sum.case)
  then show ?thesis
    by (simp only: a acc w)
qed

lemma demo_parse:
  "parse demo_env (demo_args n) (demo_world fs) = parse_tail (demo_args n) demo_acc (demo_families fs)"
  by (simp add: parse_def demo_gb demo_later)






lemma current_id_after [simp]:
  "current_id (after_family c res a) = fst (snd (snd (snd (snd res))))"
  "current_id (after_bios res a) = fst (snd (snd (snd (snd res))))"
  "current_id (after_fake res a) = fst (snd (snd (snd (snd res))))"
  by (simp_all add: after_family_def after_bios_def after_fake_def split: prod.splits)






lemma write_if_changed_simps [simp]:
  "catalogue (write_if_changed p data w) = catalogue w"
  "roms_dir (write_if_changed p data w) = roms_dir w"
  "files (write_if_changed p data w) p = Some (Text data)"
  "q \<noteq> p \<Longrightarrow> files (write_if_changed p data w) q = files w q"
  by (simp_all add: write_if_changed_def)

lemma parse_tail_eq:
  "parse_tail A a w =
     (if total_save_size a + total_rom_size a + total_img_size a = 0
      then Inl (SystemExit (- 1), w)
      else if int (total_save_size a + total_rom_size a + total_img_size a) > args_flash_size A
      then Inl (SystemExit (- 1), w\<lparr>files := (files w)(''build/roms.a'' := None)\<rparr>)
      else Inr (tail_acc a, tail_writes A (tail_acc a) w))"
  by (simp add: parse_tail_def Let_def tail_acc_def tail_writes_def)














lemma demo_total:
  "total_save_size demo_acc + total_rom_size demo_acc + total_img_size demo_acc = 61441"
  by (simp add: demo_acc_def)


lemma demo_parse_done:
  "parse demo_env (demo_args 1048576) (demo_world fs) = Inr (tail_acc demo_acc, demo_done fs)"
  by (simp add: demo_parse parse_tail_eq demo_total demo_done_def) (simp add: demo_args_def)




lemma demo_tail_acc:
  "sega_larger_rom_size (tail_acc demo_acc) = 0" "current_id (tail_acc demo_acc) = 2"
  by (simp_all add: tail_acc_def demo_acc_def)




lemma catalogue_tail_writes [simp]: "catalogue (tail_writes A a w) = catalogue w"
  by (simp add: tail_writes_def)


lemma parse_Inr:
  assumes "parse E A w = Inr (a, w')"
  obtains a1 w1 a2 w2 where
    "run_call E A call_gb (initial_acc, w) = Inr (a1, w1)"
    "run_calls E A later_calls (a1, recreate_mappers w1) = Inr (a2, w2)"
    "parse_tail A a2 w2 = Inr (a, w')"
  using assms by (auto simp: parse_def split: sum.splits)

lemma parse_tail_Inr:
  assumes "parse_tail A a w = Inr (a', w')"
  shows "a' = tail_acc a" and "w' = tail_writes A (tail_acc a) w"
  using assms by (auto simp: parse_tail_eq split: if_splits)

text \<open>
  Claim C5, as the code has it. \<^verbatim>\<open>sega_larger_rom_size\<close> is set to 0 before it is
  used: every run that completes leaves \<^verbatim>\<open>__CACHEFLASH_LENGTH__ = 0;\<close> in
  \<^verbatim>\<open>build/cacheflash.ld\<close>.
\<close>

theorem cacheflash_length_zero:
  assumes "parse E A w = Inr (a, w')"
  shows "files w' ''build/cacheflash.ld'' = Some (Text (''__CACHEFLASH_LENGTH__ = 0;'' @ newline))"
proof -
  have z: "str_nat 0 = ''0''" by code_simp
  from assms obtain a2 w2 where "parse_tail A a2 w2 = Inr (a, w')"
    by (rule parse_Inr)
  from parse_tail_Inr(2) [OF this] show ?thesis
    by (simp add: tail_writes_def tail_acc_def z)
qed


theorem cacheflash_length_zero_witness:
  "parse demo_env (demo_args 1048576) (demo_world Map.empty)
     = Inr (tail_acc demo_acc, demo_done Map.empty)
   \<and> files (demo_done Map.empty) ''build/cacheflash.ld''
       = Some (Text (''__CACHEFLASH_LENGTH__ = 0;'' @ newline))"
  using cacheflash_length_zero [OF demo_parse_done [of Map.empty]] demo_parse_done [of Map.empty]
  by simp

text \<open>
  Claim C5 as stated fails: in the small run the largest image of the sms family has 3
  bytes, \<^verbatim>\<open>parse\<close> reaches its end with \<^verbatim>\<open>sega_larger_rom_size = 3\<close>, and the
  directive written is 0.
\<close>

theorem cacheflash_length_counterexample:
  "larger_rom_size_of (find_roms True demo_romdefs ''sms'' demo_dir) = 3
   \<and> parse demo_env (demo_args 1048576) (demo_world Map.empty)
       = parse_tail (demo_args 1048576) demo_acc (demo_families Map.empty)
   \<and> sega_larger_rom_size demo_acc = 3
   \<and> parse demo_env (demo_args 1048576) (demo_world Map.empty)
       = Inr (tail_acc demo_acc, demo_done Map.empty)
   \<and> files (demo_done Map.empty) ''build/cacheflash.ld''
       = Some (Text (''__CACHEFLASH_LENGTH__ = 0;'' @ newline))"
proof -
  have z: "str_nat 0 = ''0''" by code_simp
  have "files (demo_done Map.empty) ''build/cacheflash.ld''
       = Some (Text (''__CACHEFLASH_LENGTH__ = 0;'' @ newline))"
    by (simp add: demo_done_def tail_writes_def demo_tail_acc z)
  moreover have "sega_larger_rom_size demo_acc = 3" by (simp add: demo_acc_def)
  moreover note demo_parse [of 1048576 Map.empty] demo_parse_done [of Map.empty]
  moreover have "larger_rom_size_of (find_roms True demo_romdefs ''sms'' demo_dir) = 3"
    by (simp add: demo_find_sms demo_larger)
  ultimately show ?thesis by simp
qed


















section \<open>Properties of the catalog\<close>

lemma find_roms_subset:
  "set (find_roms sv romdefs e d) \<subseteq> (\<lambda>f. apply_no_save (ROM_init sv romdefs f)) ` set d"
  by (auto simp: find_roms_def Let_def)

lemma enable_save_apply_no_save:
  "enable_save (apply_no_save (ROM_init sv romdefs f)) \<longleftrightarrow>
     \<not> suffix ''_no_save'' (entry_name romdefs (file_stem (fst f)))
     \<and> (entry_enable_save romdefs (file_stem (fst f)) = ''1'' \<or> sv)"
  by (simp add: apply_no_save_def ROM_init_def Let_def)

text \<open>
  Claim C10. Every image \<^verbatim>\<open>find_roms\<close> returns is made from a file of the folder, and
  its save storage is enabled exactly when its display name does not end in
  \<^verbatim>\<open>_no_save\<close> and either \<^verbatim>\<open>--no-save\<close> is not given or its entry has
  \<^verbatim>\<open>enable_save\<close> 1: without the flag the entry cannot disable the save.
\<close>

theorem save_enabled_unless_no_save:
  assumes "r \<in> set (find_roms (arg_save no_save_given) romdefs e d)"
  shows "\<exists>f. f \<in> set d
           \<and> r = apply_no_save (ROM_init (arg_save no_save_given) romdefs f)
           \<and> (enable_save r \<longleftrightarrow>
                \<not> suffix ''_no_save'' (entry_name romdefs (file_stem (fst f)))
                \<and> (entry_enable_save romdefs (file_stem (fst f)) = ''1'' \<or> \<not> no_save_given))"
proof -
  from assms find_roms_subset obtain f where
    f: "f \<in> set d" "r = apply_no_save (ROM_init (arg_save no_save_given) romdefs f)"
    by blast
  show ?thesis
    by (rule exI [of _ f]) (simp add: f enable_save_apply_no_save arg_save_def)
qed

text \<open>In the small run \<^verbatim>\<open>b.sms\<close> has \<^verbatim>\<open>enable_save\<close> 0 in the table and is enabled.\<close>

theorem save_enabled_unless_no_save_witness:
  "demo_b \<in> set (find_roms (arg_save False) demo_romdefs ''sms'' demo_dir)
   \<and> entry_enable_save demo_romdefs (file_stem ''b.sms'') = ''0''
   \<and> enable_save demo_b"
proof -
  have h: "demo_b \<in> set (find_roms (arg_save False) demo_romdefs ''sms'' demo_dir)"
    by (simp add: arg_save_def demo_find_sms)
  have e: "entry_enable_save demo_romdefs (file_stem ''b.sms'') = ''0''"
    by code_simp
  have b: "enable_save demo_b" by (simp add: demo_b_def)
  show ?thesis
    using save_enabled_unless_no_save [OF h] h e b by simp
qed

text \<open>A display name ending in \<^verbatim>\<open>_no_save\<close> disables the save and is cut.\<close>

lemma no_save_suffix_example:
  "map (\<lambda>r. (name r, enable_save r)) (find_roms True Map.empty ''gb'' [(''x_no_save.gb'', [])])
     = [(''x'', False)]"
  by code_simp

end
